theory Spec2Isabelle
  imports Complex_Main "HOL-Library.Sublist" "HOL-Library.Word"
begin

section \<open>JavaScript strings\<close>

text \<open>
  A JavaScript string is a sequence of 16-bit code units. \<open>js\<close> writes an ASCII literal
  of the source as such a sequence, each character as the code unit of its code point.
\<close>

type_synonym js_string = "16 word list"

definition code_unit :: "char \<Rightarrow> 16 word" where
  "code_unit c = of_nat (of_char c)"

definition js :: "string \<Rightarrow> js_string" where
  "js s = map code_unit s"

section \<open>Data model (types.ts)\<close>

text \<open>
  The records follow the interfaces of \<^verbatim>\<open>types.ts\<close>. The string-literal unions of the
  interfaces (\<^verbatim>\<open>RuleType\<close>, \<^verbatim>\<open>impact\<close>, \<^verbatim>\<open>severity\<close>, \<^verbatim>\<open>category\<close>) are strings here: the
  values come from YAML frontmatter and from the JSON of the remote service, and no code
  narrows them to the declared literals, so at run time they are arbitrary strings. The
  \<^verbatim>\<open>tags\<close> of a rule are whatever value the frontmatter gives (see \<open>js_value\<close>
  below), since the loader copies it without a check and the tag filter depends on what it
  is. Every other field has the type its interface declares. A field named \<^verbatim>\<open>id\<close>,
  \<^verbatim>\<open>type\<close>, \<^verbatim>\<open>file\<close>, \<^verbatim>\<open>title\<close> or \<^verbatim>\<open>category\<close> carries a prefix where the plain name is
  taken.
\<close>

text \<open>
  A value as the tag filter can tell it apart: a string, an array of values, or any other
  value (a number, a boolean, \<^verbatim>\<open>null\<close>, a mapping, a date) with its truthiness.
\<close>

datatype js_value =
    JsString js_string
  | JsArray "js_value list"
  | JsOther bool

record ReviewIssue =
  severity :: js_string
  issue_category :: js_string
  issue_file :: js_string
  line :: "nat option"
  issue_title :: js_string
  description :: js_string
  reasoning :: js_string
  suggestion :: "js_string option"
  ruleId :: "js_string option"

record ReviewResult =
  issues :: "ReviewIssue list"
  summary :: js_string
  overallScore :: rat
  thinkingTrace :: "js_string option"
  filesReviewed :: "js_string list"
  totalLines :: nat

record Rule =
  rule_id :: js_string
  title :: js_string
  rule_type :: js_string
  impact :: js_string
  category :: js_string
  tags :: js_value
  content :: js_string

record FileToReview =
  path :: js_string
  file_content :: js_string
  language :: js_string
  linesChanged :: "nat list option"

section \<open>JavaScript primitives used by the code\<close>

text \<open>A thrown value: an \<^verbatim>\<open>Error\<close> (a \<^verbatim>\<open>TypeError\<close> is one) with its message, or something
  that is not an \<^verbatim>\<open>Error\<close>.\<close>

datatype js_exn = Error js_string | NotAnError

text \<open>A string is falsy exactly when it is empty; a number exactly when it is zero
  (JSON has no NaN); an array never; \<^verbatim>\<open>undefined\<close> (a missing property) always.\<close>

definition truthy_string :: "js_string option \<Rightarrow> bool" where
  "truthy_string v = (case v of None \<Rightarrow> False | Some s \<Rightarrow> s \<noteq> [])"

fun truthy_value :: "js_value \<Rightarrow> bool" where
  "truthy_value (JsString s) = (s \<noteq> [])"
| "truthy_value (JsArray xs) = True"
| "truthy_value (JsOther b) = b"

text \<open>\<^verbatim>\<open>v || d\<close> for an optional string, an optional number, an optional array and an
  optional value of any kind.\<close>

definition or_string :: "js_string option \<Rightarrow> js_string \<Rightarrow> js_string" where
  "or_string v d = (case v of None \<Rightarrow> d | Some s \<Rightarrow> if s \<noteq> [] then s else d)"

text \<open>The string held by a property that the code has found truthy.\<close>

definition string_value :: "js_string option \<Rightarrow> js_string" where
  "string_value v = (case v of None \<Rightarrow> [] | Some s \<Rightarrow> s)"

definition or_number :: "rat option \<Rightarrow> rat \<Rightarrow> rat" where
  "or_number v d = (case v of None \<Rightarrow> d | Some n \<Rightarrow> if n \<noteq> 0 then n else d)"

definition or_array :: "'a list option \<Rightarrow> 'a list \<Rightarrow> 'a list" where
  "or_array v d = (case v of None \<Rightarrow> d | Some xs \<Rightarrow> xs)"

definition or_value :: "js_value option \<Rightarrow> js_value \<Rightarrow> js_value" where
  "or_value v d = (case v of None \<Rightarrow> d | Some x \<Rightarrow> if truthy_value x then x else d)"

definition nl :: js_string where
  "nl = [0x000A]"

text \<open>\<^verbatim>\<open>s.split('\n')\<close>: the pieces between the newlines, always at least one piece.\<close>

fun split_nl :: "js_string \<Rightarrow> js_string list" where
  "split_nl [] = [[]]"
| "split_nl (c # s) =
     (if c = 0x000A then [] # split_nl s
      else (case split_nl s of p # ps \<Rightarrow> (c # p) # ps | [] \<Rightarrow> [[c]]))"

text \<open>
  \<^verbatim>\<open>s.trim()\<close> strips the code points of WhiteSpace and LineTerminator from both ends:
  U+0009 to U+000D, U+0020, U+00A0, U+FEFF, U+2028, U+2029 and the other space separators
  U+1680, U+2000 to U+200A, U+202F, U+205F, U+3000. Each is one code unit.
\<close>

definition is_space :: "16 word \<Rightarrow> bool" where
  "is_space c =
     (c \<in> {0x0009, 0x000A, 0x000B, 0x000C, 0x000D, 0x0020, 0x00A0, 0x1680,
            0x2028, 0x2029, 0x202F, 0x205F, 0x3000, 0xFEFF}
      \<or> (0x2000 \<le> c \<and> c \<le> 0x200A))"

definition trim :: "js_string \<Rightarrow> js_string" where
  "trim s = rev (dropWhile is_space (rev (dropWhile is_space s)))"

text \<open>\<^verbatim>\<open>xs.join(sep)\<close>.\<close>

fun join :: "js_string \<Rightarrow> js_string list \<Rightarrow> js_string" where
  "join sep [] = []"
| "join sep [x] = x"
| "join sep (x # y # ys) = x @ sep @ join sep (y # ys)"

text \<open>\<^verbatim>\<open>s.includes(t)\<close> on strings: \<open>t\<close> occurs in \<open>s\<close> as a contiguous piece.\<close>

fun str_includes :: "js_string \<Rightarrow> js_string \<Rightarrow> bool" where
  "str_includes [] t = (t = [])"
| "str_includes (c # s) t = (prefix t (c # s) \<or> str_includes s t)"

text \<open>\<^verbatim>\<open>path.extname\<close> of Node on a directory entry name (a name holds no separator):
  the part from the last dot on, and nothing when there is no dot, when the only dot
  leads the name, or for the name \<^verbatim>\<open>..\<close>.\<close>

definition extname :: "js_string \<Rightarrow> js_string" where
  "extname name =
     (let r = rev name;
          ext = takeWhile (\<lambda>c. c \<noteq> code_unit (CHR ''.'')) r;
          rest = dropWhile (\<lambda>c. c \<noteq> code_unit (CHR ''.'')) r
      in if rest = [] \<or> tl rest = [] \<or> name = js ''..'' then []
         else code_unit (CHR ''.'') # rev ext)"

section \<open>Rule loader (rule-loader.ts)\<close>

text \<open>
  \<^verbatim>\<open>gray-matter\<close> is a library: \<open>matter\<close> is a parameter, a partial map from the text of
  a file to its frontmatter and body, undefined where the library throws. The
  frontmatter is read through the six properties the loader uses: a property is absent
  (\<open>None\<close>, \<^verbatim>\<open>undefined\<close> in the code) or holds a value; \<^verbatim>\<open>tags\<close> holds any value, the
  other five a string, as \<^verbatim>\<open>Rule\<close> declares for the field each fills.
\<close>

record frontmatter =
  fm_id :: "js_string option"
  fm_title :: "js_string option"
  fm_type :: "js_string option"
  fm_impact :: "js_string option"
  fm_category :: "js_string option"
  fm_tags :: "js_value option"

type_synonym matter = "js_string \<rightharpoonup> frontmatter \<times> js_string"

text \<open>
  The directory tree under the rules directory, as \<^verbatim>\<open>readdirSync\<close>, \<^verbatim>\<open>statSync\<close> and
  \<^verbatim>\<open>readFileSync\<close> show it, a finite tree. An entry has its name and is a directory with
  its listing (\<open>None\<close> when \<^verbatim>\<open>readdirSync\<close> throws on it), a regular file with its text
  (\<open>None\<close> when \<^verbatim>\<open>readFileSync\<close> throws on it), something that is neither, or an entry
  on which \<^verbatim>\<open>statSync\<close> throws.
\<close>

datatype fs_entry =
    Directory js_string "fs_entry list option"
  | RegularFile js_string "js_string option"
  | OtherEntry js_string
  | StatFailure js_string

record RuleLoader =
  rulesDir :: js_string
  rules :: "Rule list"

text \<open>\<^verbatim>\<open>loadRuleFile\<close> pushes one rule or none; every error is caught inside it and leaves
  the loader as it was.\<close>

definition loadRuleFile :: "matter \<Rightarrow> js_string option \<Rightarrow> RuleLoader \<Rightarrow> RuleLoader" where
  "loadRuleFile m fileContent this =
     (case fileContent of
        None \<Rightarrow> this
      | Some txt \<Rightarrow>
          (case m txt of
             None \<Rightarrow> this
           | Some (data, body) \<Rightarrow>
               if \<not> truthy_string (fm_id data) \<or> \<not> truthy_string (fm_title data) then this
               else
                 let rule = \<lparr> rule_id = string_value (fm_id data),
                              title = string_value (fm_title data),
                              rule_type = or_string (fm_type data) (js ''principle''),
                              impact = or_string (fm_impact data) (js ''MEDIUM''),
                              category = or_string (fm_category data) (js ''general''),
                              tags = or_value (fm_tags data) (JsArray []),
                              content = trim body \<rparr>
                 in this\<lparr> rules := rules this @ [rule] \<rparr>))"

text \<open>\<^verbatim>\<open>scanDirectory\<close> has one \<^verbatim>\<open>try\<close> around its loop: a listing that cannot be read
  adds nothing, and an entry on which \<^verbatim>\<open>statSync\<close> throws ends the loop of its directory,
  the entries after it unvisited.\<close>

fun scanDirectory :: "matter \<Rightarrow> fs_entry list option \<Rightarrow> RuleLoader \<Rightarrow> RuleLoader"
and scanEntries :: "matter \<Rightarrow> fs_entry list \<Rightarrow> RuleLoader \<Rightarrow> RuleLoader" where
  "scanDirectory m None this = this"
| "scanDirectory m (Some entries) this = scanEntries m entries this"
| "scanEntries m [] this = this"
| "scanEntries m (StatFailure entry # es) this = this"
| "scanEntries m (Directory entry sub # es) this = scanEntries m es (scanDirectory m sub this)"
| "scanEntries m (RegularFile entry fileContent # es) this =
     scanEntries m es
       (if extname entry = js ''.md'' then loadRuleFile m fileContent this else this)"
| "scanEntries m (OtherEntry entry # es) this = scanEntries m es this"

definition loadRules :: "matter \<Rightarrow> fs_entry list option \<Rightarrow> RuleLoader \<Rightarrow> RuleLoader" where
  "loadRules m tree this = scanDirectory m tree (this\<lparr> rules := [] \<rparr>)"

definition getRules :: "RuleLoader \<Rightarrow> Rule list" where
  "getRules this = rules this"

text \<open>
  \<^verbatim>\<open>rule.tags.includes(tag)\<close>: on an array, whether the tag is one of its elements (a
  string equals only the same string); on a string, whether the tag occurs in it; any
  other value has no \<^verbatim>\<open>includes\<close>, and the call throws a \<^verbatim>\<open>TypeError\<close> (the message is
  V8's).
\<close>

definition not_a_function_message :: js_string where
  "not_a_function_message = js ''rule.tags.includes is not a function''"

fun tags_includes :: "js_value \<Rightarrow> js_string \<Rightarrow> js_exn + bool" where
  "tags_includes (JsArray xs) tag = Inr (List.member xs (JsString tag))"
| "tags_includes (JsString s) tag = Inr (str_includes s tag)"
| "tags_includes (JsOther b) tag = Inl (Error not_a_function_message)"

text \<open>\<^verbatim>\<open>tags.some(tag => rule.tags.includes(tag))\<close>: the tags in order, up to the first
  that matches; an empty list calls nothing.\<close>

fun some_tag :: "js_value \<Rightarrow> js_string list \<Rightarrow> js_exn + bool" where
  "some_tag v [] = Inr False"
| "some_tag v (tag # ts) =
     (case tags_includes v tag of
        Inl e \<Rightarrow> Inl e
      | Inr found \<Rightarrow> if found then Inr True else some_tag v ts)"

text \<open>\<^verbatim>\<open>xs.filter(p)\<close> for a test that may throw: the first throw ends the call.\<close>

fun filter_throwing :: "('a \<Rightarrow> js_exn + bool) \<Rightarrow> 'a list \<Rightarrow> js_exn + 'a list" where
  "filter_throwing p [] = Inr []"
| "filter_throwing p (x # xs) =
     (case p x of
        Inl e \<Rightarrow> Inl e
      | Inr keep \<Rightarrow>
          (case filter_throwing p xs of
             Inl e \<Rightarrow> Inl e
           | Inr ys \<Rightarrow> Inr (if keep then x # ys else ys)))"

definition getRulesByTags :: "RuleLoader \<Rightarrow> js_string list \<Rightarrow> js_exn + Rule list" where
  "getRulesByTags this ts = filter_throwing (\<lambda>rule. some_tag (tags rule) ts) (rules this)"

definition fallback :: js_string where
  "fallback =
     js ''No specific rules loaded. Use general React and TypeScript best practices.''"

definition principles_header :: js_string where
  "principles_header =
     nl @ js ''# GUIDING PRINCIPLES (Use these to guide your deep thinking)'' @ nl @
     nl @ js ''These principles should inform your analysis. Use your expertise to discover'' @
     nl @ js ''issues related to these concepts. Think deeply and reason about implications.'' @ nl @
     nl"

definition principle_block :: "Rule \<Rightarrow> js_string" where
  "principle_block rule =
     nl @ js ''## '' @ title rule @
     nl @ js ''**Focus Area:** '' @ category rule @ js '' | **Priority:** '' @ impact rule @ nl @
     nl @ content rule @ nl @
     nl @ js ''---'' @ nl"

definition requirements_header :: js_string where
  "requirements_header =
     nl @ js ''# STRICT REQUIREMENTS (Always enforce these)'' @ nl @
     nl @ js ''These are team-specific standards that MUST be followed. Flag any violations.'' @ nl @
     nl"

definition requirement_block :: "Rule \<Rightarrow> js_string" where
  "requirement_block rule =
     nl @ js ''## '' @ title rule @
     nl @ js ''**Rule ID:** '' @ rule_id rule @ js '' | **Priority:** '' @ impact rule @ nl @
     nl @ content rule @ nl @
     nl @ js ''---'' @ nl"

text \<open>The local constant \<^verbatim>\<open>rulesToUse\<close> of \<^verbatim>\<open>compileRulesForPrompt\<close>: \<^verbatim>\<open>tags\<close> is
  optional, and an array, also the empty one, is truthy.\<close>

definition rulesToUse :: "RuleLoader \<Rightarrow> js_string list option \<Rightarrow> js_exn + Rule list" where
  "rulesToUse this ts =
     (case ts of Some t \<Rightarrow> getRulesByTags this t | None \<Rightarrow> Inr (rules this))"

text \<open>An error of the tag filter leaves the function; otherwise each \<^verbatim>\<open>forEach\<close> appends
  to \<^verbatim>\<open>output\<close>: a left fold.\<close>

definition compileRulesForPrompt ::
  "RuleLoader \<Rightarrow> js_string list option \<Rightarrow> js_exn + js_string" where
  "compileRulesForPrompt this ts =
     (case rulesToUse this ts of
        Inl e \<Rightarrow> Inl e
      | Inr rs \<Rightarrow>
          Inr (if length rs = 0 then fallback
               else
                 let principles = filter (\<lambda>r. rule_type r = js ''principle'') rs;
                     requirements = filter (\<lambda>r. rule_type r = js ''requirement'') rs;
                     output = [];
                     output = (if length principles > 0
                               then foldl (\<lambda>out rule. out @ principle_block rule)
                                      (output @ principles_header) principles
                               else output);
                     output = (if length requirements > 0
                               then foldl (\<lambda>out rule. out @ requirement_block rule)
                                      (output @ requirements_header) requirements
                               else output)
                 in output))"

section \<open>Gateway (gemini-reviewer.ts)\<close>

text \<open>What \<^verbatim>\<open>console.error\<close> receives.\<close>

datatype stderr_entry = ParseFailure js_string | ApiError js_exn

text \<open>
  \<^verbatim>\<open>JSON.parse\<close> is a parameter: a partial map from the payload to the parsed value,
  undefined where the payload is not valid JSON. A parsed value is \<^verbatim>\<open>null\<close>, or it is
  read through the three properties the gateway uses (a value that is not an object has
  none of them).
\<close>

record reviewData =
  rd_issues :: "ReviewIssue list option"
  rd_summary :: "js_string option"
  rd_overallScore :: "rat option"

datatype parsed_json = JsonNull | JsonValue reviewData

type_synonym json_parse = "js_string \<rightharpoonup> parsed_json"

text \<open>The response of the remote call: what \<^verbatim>\<open>response.text()\<close> gives (it may throw) and
  \<^verbatim>\<open>response.candidates?.[0]?.content?.parts\<close>.\<close>

record response_part =
  thought :: "js_string option"
  thinking :: "js_string option"

record response =
  text_result :: "js_exn + js_string"
  parts :: "response_part list option"

definition extractThinkingTrace :: "response \<Rightarrow> js_string option" where
  "extractThinkingTrace resp =
     (case parts resp of
        None \<Rightarrow> None
      | Some ps \<Rightarrow>
          let thinkingParts =
                filter (\<lambda>part. truthy_string (thought part) \<or> truthy_string (thinking part)) ps
          in if length thinkingParts > 0
             then Some (join nl
                    (map (\<lambda>p. or_string (thought p) (string_value (thinking p))) thinkingParts))
             else None)"

text \<open>The message of the \<^verbatim>\<open>TypeError\<close> for \<^verbatim>\<open>reviewData.issues\<close> on \<^verbatim>\<open>null\<close> (the text
  is V8's).\<close>

definition null_property_message :: js_string where
  "null_property_message =
     js (''Cannot read properties of null (reading '' @ [CHR 0x27] @ ''issues'' @ [CHR 0x27]
         @ '')'')"

text \<open>The outer \<^verbatim>\<open>catch\<close> of \<^verbatim>\<open>reviewCode\<close>: it logs the error and throws a new one.\<close>

definition review_failed ::
  "stderr_entry list \<Rightarrow> js_exn \<Rightarrow> stderr_entry list \<times> (js_exn + ReviewResult)" where
  "review_failed written e =
     (written @ [ApiError e],
      Inl (Error (js ''Failed to review code: '' @
                  (case e of Error msg \<Rightarrow> msg | NotAnError \<Rightarrow> js ''Unknown error''))))"

text \<open>\<open>generateContent\<close> is the outcome of the one remote call: it throws or it gives a
  response. The result is what was written to \<^verbatim>\<open>console.error\<close> and the error thrown or
  the Review Result returned.\<close>

definition reviewCode ::
  "json_parse \<Rightarrow> js_exn + response \<Rightarrow> FileToReview list
     \<Rightarrow> stderr_entry list \<times> (js_exn + ReviewResult)" where
  "reviewCode JSON_parse generateContent files =
     (case generateContent of
        Inl e \<Rightarrow> review_failed [] e
      | Inr resp \<Rightarrow>
          (case text_result resp of
             Inl e \<Rightarrow> review_failed [] e
           | Inr txt \<Rightarrow>
               (case JSON_parse txt of
                  None \<Rightarrow>
                    review_failed [ParseFailure txt]
                      (Error (js ''Invalid JSON response from Gemini''))
                | Some JsonNull \<Rightarrow> review_failed [] (Error null_property_message)
                | Some (JsonValue reviewData) \<Rightarrow>
                    ([], Inr \<lparr> issues = or_array (rd_issues reviewData) [],
                               summary = or_string (rd_summary reviewData)
                                           (js ''No summary provided''),
                               overallScore = or_number (rd_overallScore reviewData) 0,
                               thinkingTrace = extractThinkingTrace resp,
                               filesReviewed = map path files,
                               totalLines =
                                 foldl (\<lambda>sum f. sum + length (split_nl (file_content f)))
                                   0 files \<rparr>))))"

section \<open>Formatter (formatter.ts)\<close>

record severity_groups =
  critical :: "ReviewIssue list"
  high :: "ReviewIssue list"
  medium :: "ReviewIssue list"
  low :: "ReviewIssue list"

definition groupBySeverity :: "ReviewIssue list \<Rightarrow> severity_groups" where
  "groupBySeverity iss =
     \<lparr> critical = filter (\<lambda>i. severity i = js ''critical'') iss,
       high = filter (\<lambda>i. severity i = js ''high'') iss,
       medium = filter (\<lambda>i. severity i = js ''medium'') iss,
       low = filter (\<lambda>i. severity i = js ''low'') iss \<rparr>"

section \<open>Command line (cli.ts)\<close>

text \<open>The last line the action prints, and the code it passes to \<^verbatim>\<open>process.exit\<close>.\<close>

datatype banner =
    ReviewFailed
  | ReviewPassedWithWarnings
  | ReviewPassed
  | ErrorLine js_exn

definition exit_decision :: "ReviewResult \<Rightarrow> banner \<times> nat" where
  "exit_decision result =
     (let hasCritical = list_ex (\<lambda>i. severity i = js ''critical'') (issues result);
          hasHigh = list_ex (\<lambda>i. severity i = js ''high'') (issues result)
      in if hasCritical then (ReviewFailed, 1)
         else if hasHigh then (ReviewPassedWithWarnings, 0)
         else (ReviewPassed, 0))"

text \<open>The action around \<^verbatim>\<open>reviewCode\<close>: an error it throws reaches the outer
  \<^verbatim>\<open>catch\<close>, which exits with 1.\<close>

definition review_exit :: "js_exn + ReviewResult \<Rightarrow> banner \<times> nat" where
  "review_exit r = (case r of Inl e \<Rightarrow> (ErrorLine e, 1) | Inr result \<Rightarrow> exit_decision result)"

section \<open>Auxiliary facts\<close>

lemma unat_code_unit: "unat (code_unit c) = of_char c"
proof -
  have "(of_char c :: nat) mod 256 = of_char c" by simp
  then have "(of_char c :: nat) < 256"
    by (metis mod_less_divisor zero_less_numeral)
  then have "(of_char c :: nat) < 65536" by linarith
  then show ?thesis
    by (simp add: code_unit_def unat_of_nat)
qed

lemma code_unit_eq_iff [simp]: "code_unit c = code_unit d \<longleftrightarrow> c = d"
  by (metis unat_code_unit of_char_eq_iff)

lemma js_eq_iff [simp]: "js s = js t \<longleftrightarrow> s = t"
proof -
  have "inj code_unit" by (rule injI) simp
  then have "inj (map code_unit)" by simp
  then show ?thesis by (simp add: js_def inj_eq)
qed

lemma js_Nil: "js [] = []"
  by (simp add: js_def)

lemma js_Cons: "js (c # s) = code_unit c # js s"
  by (simp add: js_def)

lemma js_eq_Nil_iff [simp]: "js s = [] \<longleftrightarrow> s = []"
  by (simp add: js_def)

lemma foldl_append_blocks:
  "foldl (\<lambda>out x. out @ f x) acc xs = acc @ concat (map f xs)"
  by (induction xs arbitrary: acc) simp_all

lemma foldl_sum_lines:
  "foldl (\<lambda>sum f. sum + g f) acc fs = acc + sum_list (map g fs)"
  for acc :: nat
  by (induction fs arbitrary: acc) simp_all

lemma length_split_nl: "length (split_nl s) = Suc (count_list s 0x000A)"
  by (induction s) (auto split: list.splits)

lemma trim_decompose:
  "s = takeWhile is_space s @ trim s @ rev (takeWhile is_space (rev (dropWhile is_space s)))"
proof -
  let ?d = "dropWhile is_space s"
  have "?d = rev (rev ?d)"
    by (simp only: rev_rev_ident)
  also have "\<dots> = rev (takeWhile is_space (rev ?d) @ dropWhile is_space (rev ?d))"
    by (simp only: takeWhile_dropWhile_id)
  also have "\<dots> = trim s @ rev (takeWhile is_space (rev ?d))"
    by (simp only: rev_append trim_def)
  finally have "?d = trim s @ rev (takeWhile is_space (rev ?d))" .
  moreover have "s = takeWhile is_space s @ ?d"
    by simp
  ultimately show ?thesis by metis
qed

lemma trim_surrounding:
  "\<exists>pre post. s = pre @ trim s @ post \<and> list_all is_space pre \<and> list_all is_space post"
proof -
  have "list_all is_space (takeWhile is_space s)"
    by (simp add: list_all_iff) (meson set_takeWhileD)
  moreover have "list_all is_space (rev (takeWhile is_space (rev (dropWhile is_space s))))"
    by (simp add: list_all_iff) (meson set_takeWhileD)
  ultimately show ?thesis
    using trim_decompose [of s] by blast
qed

lemma trim_ends:
  assumes "trim s \<noteq> []"
  shows "\<not> is_space (hd (trim s)) \<and> \<not> is_space (last (trim s))"
proof -
  let ?d = "dropWhile is_space s"
  let ?e = "dropWhile is_space (rev ?d)"
  from assms have e: "?e \<noteq> []" by (simp add: trim_def)
  have d: "?d \<noteq> []"
  proof
    assume "?d = []"
    then have "?e = []" by (simp only: rev.simps dropWhile.simps)
    with e show False by blast
  qed
  have "\<not> is_space (hd ?e)" using e by (rule hd_dropWhile)
  then have l: "\<not> is_space (last (trim s))"
    using e by (simp add: trim_def last_rev)
  have "\<not> is_space (hd ?d)" using d by (rule hd_dropWhile)
  then have nl: "\<not> is_space (last (rev ?d))"
    using d by (simp add: last_rev)
  have "rev ?d = takeWhile is_space (rev ?d) @ ?e" by simp
  then have "last (rev ?d) = last ?e"
    using e by (metis last_appendR)
  then have "\<not> is_space (hd (trim s))"
    using nl e by (simp add: trim_def hd_rev)
  with l show ?thesis by simp
qed

text \<open>The white space beyond ASCII is stripped as well.\<close>

lemma trim_unicode_examples:
  "trim ([0x00A0, 0xFEFF] @ js ''Keep'' @ [0x2028, 0x2003, 0x3000]) = js ''Keep''"
  "trim (js '' a b '' @ nl) = js ''a b''"
  by (simp_all add: trim_def is_space_def js_Nil js_Cons code_unit_def nl_def)

lemma extname_examples:
  "extname (js ''a.md'') = js ''.md''" "extname (js ''a.b.md'') = js ''.md''"
  "extname (js ''README'') = []" "extname (js ''.md'') = []"
  "extname (js ''..md'') = js ''.md''" "extname (js ''a.'') = js ''.''"
  by (simp_all add: extname_def js_Nil js_Cons)

lemma scanEntries_skip:
  assumes "\<And>that. scanEntries m [e] that = that" "\<forall>n. e \<noteq> StatFailure n"
  shows "scanEntries m (before @ e # after) this = scanEntries m (before @ after) this"
  using assms
proof (induction before arbitrary: this)
  case Nil
  then show ?case by (cases e) simp_all
next
  case (Cons b bs)
  then show ?case by (cases b) simp_all
qed

lemma loadRuleFile_missing:
  assumes "m fileText = Some (data, body)" "fm_id data = None \<or> fm_title data = None"
  shows "loadRuleFile m (Some fileText) this = this"
  using assms by (auto simp: loadRuleFile_def truthy_string_def)

lemma filter_throwing_append:
  "filter_throwing p (xs @ ys) =
     (case filter_throwing p xs of
        Inl e \<Rightarrow> Inl e
      | Inr a \<Rightarrow> (case filter_throwing p ys of Inl e \<Rightarrow> Inl e | Inr b \<Rightarrow> Inr (a @ b)))"
  by (induction xs) (auto split: sum.splits)



lemma rulesToUse_insert:
  assumes "rulesToUse (this\<lparr> rules := xs @ r # ys \<rparr>) ts = Inr used"
  shows "\<exists>a extra b. (extra = [] \<or> extra = [r]) \<and> used = a @ extra @ b
     \<and> rulesToUse (this\<lparr> rules := xs @ ys \<rparr>) ts = Inr (a @ b)"
proof (cases ts)
  case None
  with assms have "used = xs @ [r] @ ys"
    and "rulesToUse (this\<lparr> rules := xs @ ys \<rparr>) ts = Inr (xs @ ys)"
    by (simp_all add: rulesToUse_def)
  then show ?thesis by blast
next
  case (Some t)
  let ?p = "\<lambda>rule. some_tag (tags rule) t"
  from assms Some have full: "filter_throwing ?p (xs @ r # ys) = Inr used"
    by (simp add: rulesToUse_def getRulesByTags_def)
  then obtain a where a: "filter_throwing ?p xs = Inr a"
    by (auto simp: filter_throwing_append split: sum.splits)
  with full obtain c where c: "filter_throwing ?p (r # ys) = Inr c" and u: "used = a @ c"
    by (auto simp: filter_throwing_append split: sum.splits)
  from c obtain keep b where k: "?p r = Inr keep" and b: "filter_throwing ?p ys = Inr b"
    and cc: "c = (if keep then r # b else b)"
    by (auto split: sum.splits)
  have "rulesToUse (this\<lparr> rules := xs @ ys \<rparr>) ts = Inr (a @ b)"
    using Some a b by (simp add: rulesToUse_def getRulesByTags_def filter_throwing_append)
  moreover have "used = a @ (if keep then [r] else []) @ b"
    using u cc by simp
  ultimately show ?thesis
    by (metis (full_types))
qed

lemma compile_without_other:
  assumes "rule_type r \<noteq> js ''principle''" and "rule_type r \<noteq> js ''requirement''"
  shows "compileRulesForPrompt (this\<lparr> rules := xs @ r # ys \<rparr>) ts =
     (case rulesToUse (this\<lparr> rules := xs @ r # ys \<rparr>) ts of
        Inl e \<Rightarrow> Inl e
      | Inr used \<Rightarrow>
          if rulesToUse (this\<lparr> rules := xs @ ys \<rparr>) ts = Inr [] \<and> r \<in> set used
          then Inr [] else compileRulesForPrompt (this\<lparr> rules := xs @ ys \<rparr>) ts)"
proof (cases "rulesToUse (this\<lparr> rules := xs @ r # ys \<rparr>) ts")
  case (Inl e)
  then show ?thesis by (simp add: compileRulesForPrompt_def)
next
  case (Inr used)
  from rulesToUse_insert [OF Inr]
  obtain a extra b where e: "extra = [] \<or> extra = [r]" and u: "used = a @ extra @ b"
    and wo: "rulesToUse (this\<lparr> rules := xs @ ys \<rparr>) ts = Inr (a @ b)"
    by blast
  from e show ?thesis
  proof
    assume "extra = []"
    then show ?thesis
      using assms Inr u wo by (auto simp: compileRulesForPrompt_def)
  next
    assume "extra = [r]"
    then show ?thesis
      using assms Inr u wo by (auto simp: compileRulesForPrompt_def Let_def)
  qed
qed

lemma group_count:
  "length (filter (\<lambda>i. severity i = js ''critical'') iss)
   + length (filter (\<lambda>i. severity i = js ''high'') iss)
   + length (filter (\<lambda>i. severity i = js ''medium'') iss)
   + length (filter (\<lambda>i. severity i = js ''low'') iss)
   + length (filter (\<lambda>i. severity i \<notin> {js ''critical'', js ''high'', js ''medium'', js ''low''}) iss)
   = length iss"
  by (induction iss) auto

section \<open>Tag filter\<close>




section \<open>Prompt compiler\<close>

text \<open>
  C5. Whenever the rules to use are none (no rule is loaded, or no loaded rule matches
  the given tags), \<^verbatim>\<open>compileRulesForPrompt\<close> returns the fixed fallback text, which is
  not the empty string, and raises no error.
\<close>

theorem compile_empty_fallback:
  "rulesToUse this ts = Inr [] \<Longrightarrow>
     compileRulesForPrompt this ts = Inr fallback \<and> fallback \<noteq> []"
  by (simp add: compileRulesForPrompt_def fallback_def)

theorem compile_empty_fallback_witness:
  "rulesToUse \<lparr> rulesDir = js ''rules'', rules = [] \<rparr> None = Inr []
   \<and> compileRulesForPrompt \<lparr> rulesDir = js ''rules'', rules = [] \<rparr> None
       = Inr (js ''No specific rules loaded. Use general React and TypeScript best practices.'')
   \<and> rulesToUse
        \<lparr> rulesDir = js ''rules'',
          rules = [\<lparr> rule_id = js ''r1'', title = js ''One'', rule_type = js ''principle'',
                     impact = js ''LOW'', category = js ''general'',
                     tags = JsArray [JsString (js ''react'')],
                     content = js ''first'' \<rparr>] \<rparr> (Some [js ''vue'']) = Inr []
   \<and> compileRulesForPrompt
        \<lparr> rulesDir = js ''rules'',
          rules = [\<lparr> rule_id = js ''r1'', title = js ''One'', rule_type = js ''principle'',
                     impact = js ''LOW'', category = js ''general'',
                     tags = JsArray [JsString (js ''react'')],
                     content = js ''first'' \<rparr>] \<rparr> (Some [js ''vue''])
       = Inr (js ''No specific rules loaded. Use general React and TypeScript best practices.'')"
proof -
  let ?L = "\<lparr> rulesDir = js ''rules'',
          rules = [\<lparr> rule_id = js ''r1'', title = js ''One'', rule_type = js ''principle'',
                     impact = js ''LOW'', category = js ''general'',
                     tags = JsArray [JsString (js ''react'')],
                     content = js ''first'' \<rparr>] \<rparr>"
  have h1: "rulesToUse \<lparr> rulesDir = js ''rules'', rules = [] \<rparr> None = Inr []"
    by (simp add: rulesToUse_def)
  have h2: "rulesToUse ?L (Some [js ''vue'']) = Inr []"
    by (simp add: rulesToUse_def getRulesByTags_def)
  show ?thesis
    using h1 h2 compile_empty_fallback [OF h1] compile_empty_fallback [OF h2]
    by (simp add: fallback_def)
qed

text \<open>
  C4. When there is at least one rule to use, the output of \<^verbatim>\<open>compileRulesForPrompt\<close> is
  the principles section followed by the requirements section, so every principle block
  stands before every requirement block. The principles section is its header followed by
  one block for each rule of type \<^verbatim>\<open>principle\<close>, the requirements section its header
  followed by one block for each rule of type \<^verbatim>\<open>requirement\<close>, both in the order of the
  rules to use; a section whose bucket is empty contributes nothing, not even its header.
\<close>

theorem compile_sections_order:
  assumes "rulesToUse this ts = Inr rs" and "rs \<noteq> []"
  shows "compileRulesForPrompt this ts = Inr
     (let principles = filter (\<lambda>r. rule_type r = js ''principle'') rs;
          requirements = filter (\<lambda>r. rule_type r = js ''requirement'') rs
      in (if principles = [] then []
          else principles_header @ concat (map principle_block principles)) @
         (if requirements = [] then []
          else requirements_header @ concat (map requirement_block requirements)))"
  using assms
  by (simp add: compileRulesForPrompt_def Let_def foldl_append_blocks)

text \<open>A requirement loaded before a principle is still printed after it, and with a
  requirement alone the output starts with the requirements header.\<close>

theorem compile_sections_order_witness:
  "compileRulesForPrompt
     \<lparr> rulesDir = js ''rules'',
       rules = [\<lparr> rule_id = js ''r2'', title = js ''Two'', rule_type = js ''requirement'',
                  impact = js ''HIGH'', category = js ''team'',
                  tags = JsArray [JsString (js ''b'')], content = js ''second'' \<rparr>,
                \<lparr> rule_id = js ''r1'', title = js ''One'', rule_type = js ''principle'',
                  impact = js ''LOW'', category = js ''general'',
                  tags = JsArray [JsString (js ''c'')], content = js ''first'' \<rparr>] \<rparr> None
     = Inr (principles_header
       @ principle_block \<lparr> rule_id = js ''r1'', title = js ''One'', rule_type = js ''principle'',
           impact = js ''LOW'', category = js ''general'',
           tags = JsArray [JsString (js ''c'')], content = js ''first'' \<rparr>
       @ requirements_header
       @ requirement_block \<lparr> rule_id = js ''r2'', title = js ''Two'',
           rule_type = js ''requirement'', impact = js ''HIGH'', category = js ''team'',
           tags = JsArray [JsString (js ''b'')], content = js ''second'' \<rparr>)
   \<and> compileRulesForPrompt
     \<lparr> rulesDir = js ''rules'',
       rules = [\<lparr> rule_id = js ''r2'', title = js ''Two'', rule_type = js ''requirement'',
                  impact = js ''HIGH'', category = js ''team'',
                  tags = JsArray [JsString (js ''b'')], content = js ''second'' \<rparr>,
                \<lparr> rule_id = js ''r1'', title = js ''One'', rule_type = js ''principle'',
                  impact = js ''LOW'', category = js ''general'',
                  tags = JsArray [JsString (js ''c'')], content = js ''first'' \<rparr>] \<rparr>
     (Some [js ''b''])
     = Inr (requirements_header
       @ requirement_block \<lparr> rule_id = js ''r2'', title = js ''Two'',
           rule_type = js ''requirement'', impact = js ''HIGH'', category = js ''team'',
           tags = JsArray [JsString (js ''b'')], content = js ''second'' \<rparr>)"
proof -
  let ?r1 = "\<lparr> rule_id = js ''r1'', title = js ''One'', rule_type = js ''principle'',
                  impact = js ''LOW'', category = js ''general'',
                  tags = JsArray [JsString (js ''c'')], content = js ''first'' \<rparr>"
  let ?r2 = "\<lparr> rule_id = js ''r2'', title = js ''Two'', rule_type = js ''requirement'',
                  impact = js ''HIGH'', category = js ''team'',
                  tags = JsArray [JsString (js ''b'')], content = js ''second'' \<rparr>"
  let ?L = "\<lparr> rulesDir = js ''rules'', rules = [?r2, ?r1] \<rparr>"
  have h1: "rulesToUse ?L None = Inr [?r2, ?r1]"
    by (simp add: rulesToUse_def)
  have n1: "[?r2, ?r1] \<noteq> []" by simp
  have h2: "rulesToUse ?L (Some [js ''b'']) = Inr [?r2]"
    by (simp add: rulesToUse_def getRulesByTags_def)
  have n2: "[?r2] \<noteq> []" by simp
  show ?thesis
    using compile_sections_order [OF h1 n1] compile_sections_order [OF h2 n2]
    by (simp add: Let_def)
qed

section \<open>Loading rule files\<close>

text \<open>
  C6. A rule file whose frontmatter has no \<^verbatim>\<open>id\<close> or no \<^verbatim>\<open>title\<close> is skipped: loading it
  leaves the loader as it was, so the file is not in the collection and not in the count,
  and the scan goes on with the entries after it: the scan of a directory listing that
  holds the file, and so the whole load, ends as it does without the file.
\<close>

theorem missing_id_or_title_skipped:
  assumes "m fileText = Some (data, body)"
    and "fm_id data = None \<or> fm_title data = None"
  shows "loadRuleFile m (Some fileText) this = this
    \<and> length (getRules (loadRuleFile m (Some fileText) this)) = length (getRules this)
    \<and> scanEntries m (before @ RegularFile entry (Some fileText) # after) this
        = scanEntries m (before @ after) this
    \<and> loadRules m (Some (before @ RegularFile entry (Some fileText) # after)) this
        = loadRules m (Some (before @ after)) this"
proof -
  have skip: "\<And>that. loadRuleFile m (Some fileText) that = that"
    using assms by (rule loadRuleFile_missing)
  then have one: "\<And>that. scanEntries m [RegularFile entry (Some fileText)] that = that"
    by simp
  have scan: "\<And>that. scanEntries m (before @ RegularFile entry (Some fileText) # after) that
        = scanEntries m (before @ after) that"
    using one by (rule scanEntries_skip) simp
  show ?thesis
    using skip scan by (simp add: loadRules_def)
qed

text \<open>A file with a title and no id, listed before a complete file: the load holds the
  rule of the second file alone.\<close>

theorem missing_id_or_title_skipped_witness:
  "loadRules
     [js ''---'' @ nl @ js ''title: No id'' @ nl @ js ''---'' @ nl @ js ''Text A'' \<mapsto>
        (\<lparr> fm_id = None, fm_title = Some (js ''No id''), fm_type = None, fm_impact = None,
           fm_category = None, fm_tags = None \<rparr>, js ''Text A''),
      js ''---'' @ nl @ js ''id: b'' @ nl @ js ''title: B'' @ nl @ js ''---'' @ nl @ js ''Text B'' \<mapsto>
        (\<lparr> fm_id = Some (js ''b''), fm_title = Some (js ''B''), fm_type = None, fm_impact = None,
           fm_category = None, fm_tags = None \<rparr>, js ''Text B'')]
     (Some [RegularFile (js ''a.md'') (Some (js ''---'' @ nl @ js ''title: No id'' @ nl @ js ''---'' @ nl @ js ''Text A'')),
            RegularFile (js ''b.md'') (Some (js ''---'' @ nl @ js ''id: b'' @ nl @ js ''title: B'' @ nl @ js ''---'' @ nl @ js ''Text B''))])
     \<lparr> rulesDir = js ''rules'', rules = [] \<rparr>
   = \<lparr> rulesDir = js ''rules'',
       rules = [\<lparr> rule_id = js ''b'', title = js ''B'', rule_type = js ''principle'', impact = js ''MEDIUM'',
                  category = js ''general'', tags = JsArray [], content = js ''Text B'' \<rparr>] \<rparr>"
proof -
  let ?ta = "js ''---'' @ nl @ js ''title: No id'' @ nl @ js ''---'' @ nl @ js ''Text A''"
  let ?tb = "js ''---'' @ nl @ js ''id: b'' @ nl @ js ''title: B'' @ nl @ js ''---'' @ nl @ js ''Text B''"
  let ?da = "\<lparr> fm_id = None, fm_title = Some (js ''No id''), fm_type = None, fm_impact = None,
           fm_category = None, fm_tags = None \<rparr>"
  let ?db = "\<lparr> fm_id = Some (js ''b''), fm_title = Some (js ''B''), fm_type = None, fm_impact = None,
           fm_category = None, fm_tags = None \<rparr>"
  let ?m = "[?ta \<mapsto> (?da, js ''Text A''), ?tb \<mapsto> (?db, js ''Text B'')]"
  let ?L = "\<lparr> rulesDir = js ''rules'', rules = [] \<rparr>"
  have h1: "?m ?ta = Some (?da, js ''Text A'')"
    by (simp add: nl_def js_Nil js_Cons)
  have h2: "fm_id ?da = None \<or> fm_title ?da = None"
    by simp
  have without: "loadRules ?m (Some ([] @ [RegularFile (js ''b.md'') (Some ?tb)])) ?L
      = \<lparr> rulesDir = js ''rules'',
          rules = [\<lparr> rule_id = js ''b'', title = js ''B'', rule_type = js ''principle'',
                     impact = js ''MEDIUM'', category = js ''general'', tags = JsArray [],
                     content = js ''Text B'' \<rparr>] \<rparr>"
    by (simp add: loadRules_def extname_def loadRuleFile_def truthy_string_def
        string_value_def or_string_def or_value_def trim_def is_space_def
        js_Nil js_Cons code_unit_def)
  from missing_id_or_title_skipped [where m = "?m" and fileText = "?ta" and data = "?da"
      and body = "(js ''Text A'')" and before = "[]" and entry = "(js ''a.md'')"
      and after = "[RegularFile (js ''b.md'') (Some ?tb)]" and this = "?L", OF h1 h2]
  have "loadRules ?m (Some ([] @ RegularFile (js ''a.md'') (Some ?ta) # [RegularFile (js ''b.md'') (Some ?tb)])) ?L
      = loadRules ?m (Some ([] @ [RegularFile (js ''b.md'') (Some ?tb)])) ?L"
    by (elim conjE)
  with without show ?thesis
    by (simp only: append_Nil)
qed

text \<open>
  C7. A rule file that loads (its \<^verbatim>\<open>id\<close> and \<^verbatim>\<open>title\<close> are truthy) adds one rule with that
  id and title; a frontmatter field that is not given takes its default: \<^verbatim>\<open>type\<close> is
  \<^verbatim>\<open>principle\<close>, \<^verbatim>\<open>impact\<close> is \<^verbatim>\<open>MEDIUM\<close>, \<^verbatim>\<open>category\<close> is \<^verbatim>\<open>general\<close>, \<^verbatim>\<open>tags\<close> is
  the empty array. The content is the trimmed body: the body is the content between two runs of
  white space, and the content neither starts nor ends with white space.
\<close>

theorem loaded_rule_defaults:
  assumes "m fileText = Some (data, body)"
    and "truthy_string (fm_id data)" and "truthy_string (fm_title data)"
  shows "\<exists>rule. loadRuleFile m (Some fileText) this = this\<lparr> rules := rules this @ [rule] \<rparr>
    \<and> fm_id data = Some (rule_id rule) \<and> fm_title data = Some (title rule)
    \<and> (fm_type data = None \<longrightarrow> rule_type rule = js ''principle'')
    \<and> (fm_impact data = None \<longrightarrow> impact rule = js ''MEDIUM'')
    \<and> (fm_category data = None \<longrightarrow> category rule = js ''general'')
    \<and> (fm_tags data = None \<longrightarrow> tags rule = JsArray [])
    \<and> content rule = trim body
    \<and> (\<exists>pre post. body = pre @ content rule @ post
          \<and> list_all is_space pre \<and> list_all is_space post)
    \<and> (content rule \<noteq> [] \<longrightarrow>
          \<not> is_space (hd (content rule)) \<and> \<not> is_space (last (content rule)))"
proof -
  define rule where "rule =
     \<lparr> rule_id = string_value (fm_id data), title = string_value (fm_title data),
       rule_type = or_string (fm_type data) (js ''principle''),
       impact = or_string (fm_impact data) (js ''MEDIUM''),
       category = or_string (fm_category data) (js ''general''),
       tags = or_value (fm_tags data) (JsArray []), content = trim body \<rparr>"
  have loaded: "loadRuleFile m (Some fileText) this = this\<lparr> rules := rules this @ [rule] \<rparr>"
    using assms by (simp add: loadRuleFile_def rule_def Let_def)
  have ident: "fm_id data = Some (rule_id rule) \<and> fm_title data = Some (title rule)"
    using assms(2,3)
    by (simp add: rule_def truthy_string_def string_value_def split: option.splits)
  have defaults: "(fm_type data = None \<longrightarrow> rule_type rule = js ''principle'')
      \<and> (fm_impact data = None \<longrightarrow> impact rule = js ''MEDIUM'')
      \<and> (fm_category data = None \<longrightarrow> category rule = js ''general'')
      \<and> (fm_tags data = None \<longrightarrow> tags rule = JsArray [])"
    by (simp add: rule_def or_string_def or_value_def)
  have body: "content rule = trim body" by (simp add: rule_def)
  have around: "\<exists>pre post. body = pre @ content rule @ post
      \<and> list_all is_space pre \<and> list_all is_space post"
    unfolding body by (rule trim_surrounding)
  have ends: "content rule \<noteq> [] \<longrightarrow>
      \<not> is_space (hd (content rule)) \<and> \<not> is_space (last (content rule))"
    unfolding body using trim_ends [of body] by blast
  show ?thesis
    by (rule exI [of _ rule]) (use loaded ident defaults body around ends in blast)
qed

text \<open>The frontmatter \<^verbatim>\<open>id: x\<close>, \<^verbatim>\<open>title: T\<close> with nothing else, and a body with a
  no-break space (U+00A0) at each end and a final newline.\<close>

theorem loaded_rule_defaults_witness:
  "loadRuleFile
     [js ''---'' @ nl @ js ''id: x'' @ nl @ js ''title: T'' @ nl @ js ''---'' @ nl @ [0x00A0] @ js ''Keep it small.'' @ [0x00A0] @ nl \<mapsto>
        (\<lparr> fm_id = Some (js ''x''), fm_title = Some (js ''T''), fm_type = None, fm_impact = None,
           fm_category = None, fm_tags = None \<rparr>, [0x00A0] @ js ''Keep it small.'' @ [0x00A0] @ nl)]
     (Some (js ''---'' @ nl @ js ''id: x'' @ nl @ js ''title: T'' @ nl @ js ''---'' @ nl @ [0x00A0] @ js ''Keep it small.'' @ [0x00A0] @ nl))
     \<lparr> rulesDir = js ''rules'', rules = [] \<rparr>
   = \<lparr> rulesDir = js ''rules'',
       rules = [\<lparr> rule_id = js ''x'', title = js ''T'', rule_type = js ''principle'', impact = js ''MEDIUM'',
                  category = js ''general'', tags = JsArray [], content = js ''Keep it small.'' \<rparr>] \<rparr>"
proof -
  let ?t = "js ''---'' @ nl @ js ''id: x'' @ nl @ js ''title: T'' @ nl @ js ''---'' @ nl @ [0x00A0] @ js ''Keep it small.'' @ [0x00A0] @ nl"
  let ?d = "\<lparr> fm_id = Some (js ''x''), fm_title = Some (js ''T''), fm_type = None, fm_impact = None,
           fm_category = None, fm_tags = None \<rparr>"
  let ?b = "[0x00A0] @ js ''Keep it small.'' @ [0x00A0] @ nl"
  let ?L = "\<lparr> rulesDir = js ''rules'', rules = [] \<rparr>"
  have h1: "[?t \<mapsto> (?d, ?b)] ?t = Some (?d, ?b)" by simp
  have h2: "truthy_string (fm_id ?d)" by (simp add: truthy_string_def)
  have h3: "truthy_string (fm_title ?d)" by (simp add: truthy_string_def)
  have tr: "trim ?b = js ''Keep it small.''"
    by (simp add: trim_def is_space_def nl_def js_Nil js_Cons code_unit_def)
  from loaded_rule_defaults [where m = "[?t \<mapsto> (?d, ?b)]" and fileText = "?t" and data = "?d"
      and body = "?b" and this = "?L", OF h1 h2 h3]
  obtain rule where l: "loadRuleFile [?t \<mapsto> (?d, ?b)] (Some ?t) ?L = ?L\<lparr> rules := rules ?L @ [rule] \<rparr>"
    and i: "fm_id ?d = Some (rule_id rule)" "fm_title ?d = Some (title rule)"
    and d: "fm_type ?d = None \<longrightarrow> rule_type rule = js ''principle''"
      "fm_impact ?d = None \<longrightarrow> impact rule = js ''MEDIUM''"
      "fm_category ?d = None \<longrightarrow> category rule = js ''general''"
      "fm_tags ?d = None \<longrightarrow> tags rule = JsArray []"
    and c: "content rule = trim ?b"
    by (elim exE conjE) (rule that, assumption+)
  have "rule = \<lparr> rule_id = js ''x'', title = js ''T'', rule_type = js ''principle'', impact = js ''MEDIUM'',
                  category = js ''general'', tags = JsArray [], content = js ''Keep it small.'' \<rparr>"
    using i d c tr by (cases rule) simp
  with l show ?thesis by simp
qed

text \<open>
  C10. A rule file whose frontmatter \<^verbatim>\<open>type\<close> is a non-empty string other than
  \<^verbatim>\<open>principle\<close> and \<^verbatim>\<open>requirement\<close> (with \<^verbatim>\<open>id\<close> and \<^verbatim>\<open>title\<close> truthy) is loaded with that
  type as it stands and is one more rule of \<^verbatim>\<open>getRules()\<close>. Such a rule is in neither bucket
  of \<^verbatim>\<open>compileRulesForPrompt\<close>, and wherever it stands among the loaded rules the compiled
  prompt is the prompt compiled without it; only when it is the one rule to use is the
  prompt the empty string where without it the fallback text is returned. (Where the tag
  filter throws on the loaded rules there is no prompt, only its error.)
\<close>

theorem unknown_type_omitted:
  assumes "m fileText = Some (data, body)"
    and "truthy_string (fm_id data)" and "truthy_string (fm_title data)"
    and "fm_type data = Some t" and "t \<noteq> []"
    and "t \<noteq> js ''principle''" and "t \<noteq> js ''requirement''"
  shows "\<exists>rule. getRules (loadRuleFile m (Some fileText) this) = getRules this @ [rule]
    \<and> rule_type rule = t
    \<and> (\<forall>rs. rulesToUse that ts = Inr rs \<longrightarrow>
          rule \<notin> set (filter (\<lambda>r. rule_type r = js ''principle'') rs)
          \<and> rule \<notin> set (filter (\<lambda>r. rule_type r = js ''requirement'') rs))
    \<and> compileRulesForPrompt (that\<lparr> rules := xs @ rule # ys \<rparr>) ts =
        (case rulesToUse (that\<lparr> rules := xs @ rule # ys \<rparr>) ts of
           Inl e \<Rightarrow> Inl e
         | Inr used \<Rightarrow>
             if rulesToUse (that\<lparr> rules := xs @ ys \<rparr>) ts = Inr [] \<and> rule \<in> set used
             then Inr [] else compileRulesForPrompt (that\<lparr> rules := xs @ ys \<rparr>) ts)"
proof -
  define rule where "rule =
     \<lparr> rule_id = string_value (fm_id data), title = string_value (fm_title data),
       rule_type = or_string (fm_type data) (js ''principle''),
       impact = or_string (fm_impact data) (js ''MEDIUM''),
       category = or_string (fm_category data) (js ''general''),
       tags = or_value (fm_tags data) (JsArray []), content = trim body \<rparr>"
  have loaded: "getRules (loadRuleFile m (Some fileText) this) = getRules this @ [rule]"
    using assms(1-3) by (simp add: loadRuleFile_def rule_def Let_def getRules_def)
  have ty: "rule_type rule = t"
    using assms(4,5) by (simp add: rule_def or_string_def)
  have np: "rule_type rule \<noteq> js ''principle''" and nr: "rule_type rule \<noteq> js ''requirement''"
    using ty assms(6,7) by simp_all
  have out: "\<forall>rs. rulesToUse that ts = Inr rs \<longrightarrow>
          rule \<notin> set (filter (\<lambda>r. rule_type r = js ''principle'') rs)
          \<and> rule \<notin> set (filter (\<lambda>r. rule_type r = js ''requirement'') rs)"
    using np nr by simp
  show ?thesis
    by (rule exI [of _ rule])
      (use loaded ty out
        compile_without_other [OF np nr, where this = that and xs = xs and ys = ys and ts = ts]
        in blast)
qed

text \<open>A file of type \<^verbatim>\<open>guideline\<close> loaded after a principle: two rules are counted, and
  the prompt is the prompt of the principle alone.\<close>

theorem unknown_type_omitted_witness:
  "getRules (loadRuleFile
     [js ''---'' @ nl @ js ''id: g'' @ nl @ js ''title: G'' @ nl @ js ''type: guideline'' @ nl @ js ''---'' @ nl @ js ''Text G'' \<mapsto>
        (\<lparr> fm_id = Some (js ''g''), fm_title = Some (js ''G''), fm_type = Some (js ''guideline''),
           fm_impact = None, fm_category = None, fm_tags = None \<rparr>, js ''Text G'')]
     (Some (js ''---'' @ nl @ js ''id: g'' @ nl @ js ''title: G'' @ nl @ js ''type: guideline'' @ nl @ js ''---'' @ nl @ js ''Text G''))
     \<lparr> rulesDir = js ''rules'',
       rules = [\<lparr> rule_id = js ''p'', title = js ''P'', rule_type = js ''principle'', impact = js ''LOW'',
                  category = js ''general'', tags = JsArray [], content = js ''Text P'' \<rparr>] \<rparr>)
   = [\<lparr> rule_id = js ''p'', title = js ''P'', rule_type = js ''principle'', impact = js ''LOW'',
         category = js ''general'', tags = JsArray [], content = js ''Text P'' \<rparr>,
      \<lparr> rule_id = js ''g'', title = js ''G'', rule_type = js ''guideline'', impact = js ''MEDIUM'',
         category = js ''general'', tags = JsArray [], content = js ''Text G'' \<rparr>]
   \<and> compileRulesForPrompt
       \<lparr> rulesDir = js ''rules'',
         rules = [\<lparr> rule_id = js ''p'', title = js ''P'', rule_type = js ''principle'', impact = js ''LOW'',
                    category = js ''general'', tags = JsArray [], content = js ''Text P'' \<rparr>,
                  \<lparr> rule_id = js ''g'', title = js ''G'', rule_type = js ''guideline'', impact = js ''MEDIUM'',
                    category = js ''general'', tags = JsArray [], content = js ''Text G'' \<rparr>] \<rparr> None
     = Inr (principles_header
       @ principle_block \<lparr> rule_id = js ''p'', title = js ''P'', rule_type = js ''principle'',
           impact = js ''LOW'', category = js ''general'', tags = JsArray [],
           content = js ''Text P'' \<rparr>)"
proof -
  let ?t = "js ''---'' @ nl @ js ''id: g'' @ nl @ js ''title: G'' @ nl @ js ''type: guideline'' @ nl @ js ''---'' @ nl @ js ''Text G''"
  let ?d = "\<lparr> fm_id = Some (js ''g''), fm_title = Some (js ''G''), fm_type = Some (js ''guideline''),
           fm_impact = None, fm_category = None, fm_tags = None \<rparr>"
  let ?p = "\<lparr> rule_id = js ''p'', title = js ''P'', rule_type = js ''principle'', impact = js ''LOW'',
                  category = js ''general'', tags = JsArray [], content = js ''Text P'' \<rparr>"
  let ?g = "\<lparr> rule_id = js ''g'', title = js ''G'', rule_type = js ''guideline'', impact = js ''MEDIUM'',
         category = js ''general'', tags = JsArray [], content = js ''Text G'' \<rparr>"
  let ?L = "\<lparr> rulesDir = js ''rules'', rules = [?p] \<rparr>"
  have h1: "[?t \<mapsto> (?d, js ''Text G'')] ?t = Some (?d, js ''Text G'')" by simp
  have h2: "truthy_string (fm_id ?d)" by (simp add: truthy_string_def)
  have h3: "truthy_string (fm_title ?d)" by (simp add: truthy_string_def)
  have h4: "fm_type ?d = Some (js ''guideline'')" by simp
  have h5: "(js ''guideline'') \<noteq> []" "(js ''guideline'') \<noteq> js ''principle''"
    "(js ''guideline'') \<noteq> js ''requirement''" by simp_all
  have computed: "getRules (loadRuleFile [?t \<mapsto> (?d, js ''Text G'')] (Some ?t) ?L) = [?p, ?g]"
    by (simp add: getRules_def loadRuleFile_def truthy_string_def string_value_def
        or_string_def or_value_def trim_def is_space_def js_Nil js_Cons code_unit_def)
  from unknown_type_omitted [where m = "[?t \<mapsto> (?d, js ''Text G'')]" and fileText = "?t"
      and data = "?d" and body = "(js ''Text G'')" and t = "(js ''guideline'')" and this = "?L"
      and that = "?L" and ts = None and xs = "[?p]" and ys = "[]", OF h1 h2 h3 h4 h5]
  obtain rule where l: "getRules (loadRuleFile [?t \<mapsto> (?d, js ''Text G'')] (Some ?t) ?L)
        = getRules ?L @ [rule]"
    and c: "compileRulesForPrompt (?L\<lparr> rules := [?p] @ rule # [] \<rparr>) None =
        (case rulesToUse (?L\<lparr> rules := [?p] @ rule # [] \<rparr>) None of
           Inl e \<Rightarrow> Inl e
         | Inr used \<Rightarrow>
             if rulesToUse (?L\<lparr> rules := [?p] @ [] \<rparr>) None = Inr [] \<and> rule \<in> set used
             then Inr [] else compileRulesForPrompt (?L\<lparr> rules := [?p] @ [] \<rparr>) None)"
    by blast
  from l computed have r: "rule = ?g"
    by (simp add: getRules_def)
  have alone: "compileRulesForPrompt \<lparr> rulesDir = js ''rules'', rules = [?p] \<rparr> None
      = Inr (principles_header @ principle_block ?p)"
    by (simp add: compileRulesForPrompt_def rulesToUse_def)
  from c r alone have "compileRulesForPrompt \<lparr> rulesDir = js ''rules'', rules = [?p, ?g] \<rparr> None
      = Inr (principles_header @ principle_block ?p)"
    by (simp add: rulesToUse_def)
  with computed show ?thesis by simp
qed

section \<open>Gateway\<close>

text \<open>
  C1, as the code has it. When the payload is not valid JSON, \<^verbatim>\<open>reviewCode\<close> writes the
  payload to \<^verbatim>\<open>console.error\<close> and fails: it returns no Review Result, and the error it
  throws has the fixed message \<^verbatim>\<open>Failed to review code: Invalid JSON response from Gemini\<close>,
  whatever the payload is.
\<close>

theorem invalid_json_fails:
  assumes "generateContent = Inr resp" and "text_result resp = Inr payload"
    and "JSON_parse payload = None"
  shows "reviewCode JSON_parse generateContent files =
     ([ParseFailure payload, ApiError (Error (js ''Invalid JSON response from Gemini''))],
      Inl (Error (js ''Failed to review code: Invalid JSON response from Gemini'')))"
  using assms by (simp add: reviewCode_def review_failed_def js_Nil js_Cons)

theorem invalid_json_fails_witness:
  "reviewCode Map.empty (Inr \<lparr> text_result = Inr (js ''{ issues: [''), parts = None \<rparr>)
     [\<lparr> path = js ''a.ts'', file_content = js ''let x = 1'', language = js ''typescript'',
        linesChanged = None \<rparr>] =
     ([ParseFailure (js ''{ issues: [''), ApiError (Error (js ''Invalid JSON response from Gemini''))],
      Inl (Error (js ''Failed to review code: Invalid JSON response from Gemini'')))"
proof -
  let ?r = "\<lparr> text_result = Inr (js ''{ issues: [''), parts = None \<rparr>"
  have h1: "(Inr ?r :: js_exn + response) = Inr ?r" by (rule refl)
  have h2: "text_result ?r = Inr (js ''{ issues: ['')" by simp
  have h3: "(Map.empty :: json_parse) (js ''{ issues: ['') = None" by simp
  show ?thesis
    by (rule invalid_json_fails [OF h1 h2 h3])
qed

text \<open>The claim as stated fails: for the payload \<^verbatim>\<open>{ issues: [\<close> the message of the error
  does not include the payload.\<close>

theorem invalid_json_message_counterexample:
  "reviewCode Map.empty (Inr \<lparr> text_result = Inr (js ''{ issues: [''), parts = None \<rparr>) [] =
     ([ParseFailure (js ''{ issues: [''), ApiError (Error (js ''Invalid JSON response from Gemini''))],
      Inl (Error (js ''Failed to review code: Invalid JSON response from Gemini'')))
   \<and> \<not> str_includes (js ''Failed to review code: Invalid JSON response from Gemini'')
         (js ''{ issues: ['')"
  by (simp add: reviewCode_def review_failed_def js_Nil js_Cons)

text \<open>
  C8. When the payload parses to a value other than \<^verbatim>\<open>null\<close>, \<^verbatim>\<open>reviewCode\<close> returns a
  Review Result and writes nothing to \<^verbatim>\<open>console.error\<close>. A missing \<^verbatim>\<open>issues\<close> becomes the
  empty sequence, a missing \<^verbatim>\<open>summary\<close> the text \<^verbatim>\<open>No summary provided\<close>, a missing
  \<^verbatim>\<open>overallScore\<close> 0; \<^verbatim>\<open>filesReviewed\<close> is the paths of the input files, in order; and
  \<^verbatim>\<open>totalLines\<close> is the sum over the input files of the number of pieces the content
  splits into at newlines, which is one more than its number of newlines.
\<close>

theorem reviewCode_normalizes:
  assumes "generateContent = Inr resp" and "text_result resp = Inr payload"
    and "JSON_parse payload = Some (JsonValue reviewData)"
  shows "\<exists>result. reviewCode JSON_parse generateContent files = ([], Inr result)
    \<and> (rd_issues reviewData = None \<longrightarrow> issues result = [])
    \<and> (rd_summary reviewData = None \<longrightarrow> summary result = js ''No summary provided'')
    \<and> (rd_overallScore reviewData = None \<longrightarrow> overallScore result = 0)
    \<and> filesReviewed result = map path files
    \<and> totalLines result = sum_list (map (\<lambda>f. length (split_nl (file_content f))) files)
    \<and> totalLines result
        = sum_list (map (\<lambda>f. Suc (count_list (file_content f) 0x000A)) files)"
proof -
  define result where "result = \<lparr> issues = or_array (rd_issues reviewData) [],
      summary = or_string (rd_summary reviewData) (js ''No summary provided''),
      overallScore = or_number (rd_overallScore reviewData) 0,
      thinkingTrace = extractThinkingTrace resp,
      filesReviewed = map path files,
      totalLines = foldl (\<lambda>sum f. sum + length (split_nl (file_content f))) 0 files \<rparr>"
  have run: "reviewCode JSON_parse generateContent files = ([], Inr result)"
    using assms by (simp add: reviewCode_def result_def)
  have defaults: "(rd_issues reviewData = None \<longrightarrow> issues result = [])
      \<and> (rd_summary reviewData = None \<longrightarrow> summary result = js ''No summary provided'')
      \<and> (rd_overallScore reviewData = None \<longrightarrow> overallScore result = 0)"
    by (simp add: result_def or_array_def or_string_def or_number_def)
  have paths: "filesReviewed result = map path files"
    by (simp add: result_def)
  have lines: "totalLines result
      = sum_list (map (\<lambda>f. length (split_nl (file_content f))) files)"
    by (simp add: result_def foldl_sum_lines)
  then have newlines: "totalLines result
      = sum_list (map (\<lambda>f. Suc (count_list (file_content f) 0x000A)) files)"
    by (simp only: length_split_nl)
  show ?thesis
    by (rule exI [of _ result]) (use run defaults paths lines newlines in blast)
qed

text \<open>The payload \<^verbatim>\<open>{}\<close>, an object with none of the three fields, and two files of two
  lines and one line.\<close>

theorem reviewCode_normalizes_witness:
  "reviewCode
     [js ''{}'' \<mapsto> JsonValue \<lparr> rd_issues = None, rd_summary = None, rd_overallScore = None \<rparr>]
     (Inr \<lparr> text_result = Inr (js ''{}''), parts = None \<rparr>)
     [\<lparr> path = js ''a.ts'', file_content = js ''let x = 1'' @ nl @ js ''let y = 2'',
        language = js ''typescript'', linesChanged = None \<rparr>,
      \<lparr> path = js ''b.tsx'', file_content = js ''export {}'', language = js ''tsx'',
        linesChanged = None \<rparr>]
   = ([], Inr \<lparr> issues = [], summary = js ''No summary provided'', overallScore = 0,
                 thinkingTrace = None, filesReviewed = [js ''a.ts'', js ''b.tsx''],
                 totalLines = 3 \<rparr>)"
proof -
  let ?d = "\<lparr> rd_issues = None, rd_summary = None, rd_overallScore = None \<rparr>"
  let ?r = "\<lparr> text_result = Inr (js ''{}''), parts = None \<rparr>"
  let ?fs = "[\<lparr> path = js ''a.ts'', file_content = js ''let x = 1'' @ nl @ js ''let y = 2'',
        language = js ''typescript'', linesChanged = None \<rparr>,
      \<lparr> path = js ''b.tsx'', file_content = js ''export {}'', language = js ''tsx'',
        linesChanged = None \<rparr>]"
  have h1: "(Inr ?r :: js_exn + response) = Inr ?r" by (rule refl)
  have h2: "text_result ?r = Inr (js ''{}'')" by simp
  have h3: "[js ''{}'' \<mapsto> JsonValue ?d] (js ''{}'') = Some (JsonValue ?d)" by simp
  from reviewCode_normalizes [where JSON_parse = "[js ''{}'' \<mapsto> JsonValue ?d]"
      and payload = "(js ''{}'')" and reviewData = "?d" and files = "?fs", OF h1 h2 h3]
  obtain result where run: "reviewCode [js ''{}'' \<mapsto> JsonValue ?d] (Inr ?r) ?fs = ([], Inr result)"
    and d: "rd_issues ?d = None \<longrightarrow> issues result = []"
      "rd_summary ?d = None \<longrightarrow> summary result = js ''No summary provided''"
      "rd_overallScore ?d = None \<longrightarrow> overallScore result = 0"
    and p: "filesReviewed result = map path ?fs"
    and l: "totalLines result
        = sum_list (map (\<lambda>f. Suc (count_list (file_content f) 0x000A)) ?fs)"
    by (elim exE conjE) (rule that, assumption+)
  have t: "thinkingTrace result = None"
    using run by (auto simp add: reviewCode_def extractThinkingTrace_def)
  have "result = \<lparr> issues = [], summary = js ''No summary provided'', overallScore = 0,
                 thinkingTrace = None, filesReviewed = [js ''a.ts'', js ''b.tsx''],
                 totalLines = 3 \<rparr>"
    using d p l t by (cases result) (simp add: nl_def js_Nil js_Cons code_unit_def)
  with run show ?thesis by simp
qed

text \<open>
  C9, as the code has it. When the parsed value holds a sequence of \<open>N\<close> issues, the Review
  Result holds that same sequence, so \<^verbatim>\<open>issues.length\<close> is \<open>N\<close>. The four buckets of
  \<^verbatim>\<open>groupBySeverity\<close> are pairwise disjoint, and their sizes together with the number of
  issues whose severity is none of \<^verbatim>\<open>critical\<close>, \<^verbatim>\<open>high\<close>, \<^verbatim>\<open>medium\<close>, \<^verbatim>\<open>low\<close> sum to \<open>N\<close>.
  When every issue has one of the four severities, the bucket sizes sum to \<open>N\<close> and the
  buckets together hold every issue.
\<close>

theorem issues_kept_and_grouped:
  assumes "generateContent = Inr resp" and "text_result resp = Inr payload"
    and "JSON_parse payload = Some (JsonValue reviewData)"
    and "rd_issues reviewData = Some iss"
  shows "\<exists>result g. reviewCode JSON_parse generateContent files = ([], Inr result)
    \<and> issues result = iss
    \<and> g = groupBySeverity (issues result)
    \<and> length (critical g) + length (high g) + length (medium g) + length (low g)
        + length (filter (\<lambda>i. severity i \<notin> {js ''critical'', js ''high'', js ''medium'', js ''low''}) iss)
        = length iss
    \<and> ((\<forall>i \<in> set iss. severity i \<in> {js ''critical'', js ''high'', js ''medium'', js ''low''}) \<longrightarrow>
          length (critical g) + length (high g) + length (medium g) + length (low g)
            = length iss
          \<and> set (critical g) \<union> set (high g) \<union> set (medium g) \<union> set (low g) = set iss)
    \<and> set (critical g) \<inter> set (high g) = {} \<and> set (critical g) \<inter> set (medium g) = {}
    \<and> set (critical g) \<inter> set (low g) = {} \<and> set (high g) \<inter> set (medium g) = {}
    \<and> set (high g) \<inter> set (low g) = {} \<and> set (medium g) \<inter> set (low g) = {}"
proof -
  define result where "result = \<lparr> issues = iss,
      summary = or_string (rd_summary reviewData) (js ''No summary provided''),
      overallScore = or_number (rd_overallScore reviewData) 0,
      thinkingTrace = extractThinkingTrace resp,
      filesReviewed = map path files,
      totalLines = foldl (\<lambda>sum f. sum + length (split_nl (file_content f))) 0 files \<rparr>"
  define g where "g = groupBySeverity iss"
  have run: "reviewCode JSON_parse generateContent files = ([], Inr result)"
    using assms by (simp add: reviewCode_def result_def or_array_def)
  have kept: "issues result = iss" by (simp add: result_def)
  have count: "length (critical g) + length (high g) + length (medium g) + length (low g)
        + length (filter (\<lambda>i. severity i \<notin> {js ''critical'', js ''high'', js ''medium'', js ''low''}) iss)
        = length iss"
    unfolding g_def groupBySeverity_def using group_count [of iss] by simp
  have valid: "(\<forall>i \<in> set iss. severity i \<in> {js ''critical'', js ''high'', js ''medium'', js ''low''}) \<longrightarrow>
          length (critical g) + length (high g) + length (medium g) + length (low g)
            = length iss
          \<and> set (critical g) \<union> set (high g) \<union> set (medium g) \<union> set (low g) = set iss"
  proof
    assume a: "\<forall>i \<in> set iss. severity i \<in> {js ''critical'', js ''high'', js ''medium'', js ''low''}"
    then have "filter (\<lambda>i. severity i \<notin> {js ''critical'', js ''high'', js ''medium'', js ''low''}) iss = []"
      by (simp add: filter_empty_conv)
    with count have "length (critical g) + length (high g) + length (medium g) + length (low g)
            = length iss" by simp
    moreover have "set (critical g) \<union> set (high g) \<union> set (medium g) \<union> set (low g) = set iss"
      using a unfolding g_def groupBySeverity_def by auto
    ultimately show "length (critical g) + length (high g) + length (medium g) + length (low g)
            = length iss
          \<and> set (critical g) \<union> set (high g) \<union> set (medium g) \<union> set (low g) = set iss"
      by simp
  qed
  have disj: "set (critical g) \<inter> set (high g) = {} \<and> set (critical g) \<inter> set (medium g) = {}
    \<and> set (critical g) \<inter> set (low g) = {} \<and> set (high g) \<inter> set (medium g) = {}
    \<and> set (high g) \<inter> set (low g) = {} \<and> set (medium g) \<inter> set (low g) = {}"
    unfolding g_def groupBySeverity_def by auto
  show ?thesis
    apply (rule exI [of _ result])
    apply (rule exI [of _ g])
    using run kept count valid disj g_def by simp
qed

text \<open>A payload with one \<^verbatim>\<open>critical\<close> and one \<^verbatim>\<open>low\<close> issue: both are kept, in order, and the
  bucket sizes sum to 2.\<close>

theorem issues_kept_and_grouped_witness:
  \<open>reviewCode
     [js ''{"issues":[{"severity":"critical","category":"correctness","file":"a.ts","line":3,"title":"Null access","description":"d1","reasoning":"r1"},{"severity":"low","category":"best-practice","file":"a.ts","title":"Naming","description":"d2","reasoning":"r2"}],"summary":"ok","overallScore":40}'' \<mapsto>
        JsonValue \<lparr> rd_issues = Some
            [\<lparr> severity = js ''critical'', issue_category = js ''correctness'', issue_file = js ''a.ts'',
               line = Some 3, issue_title = js ''Null access'', description = js ''d1'',
               reasoning = js ''r1'', suggestion = None, ruleId = None \<rparr>,
             \<lparr> severity = js ''low'', issue_category = js ''best-practice'', issue_file = js ''a.ts'',
               line = None, issue_title = js ''Naming'', description = js ''d2'',
               reasoning = js ''r2'', suggestion = None, ruleId = None \<rparr>],
          rd_summary = Some (js ''ok''), rd_overallScore = Some 40 \<rparr>]
     (Inr \<lparr> text_result = Inr (js ''{"issues":[{"severity":"critical","category":"correctness","file":"a.ts","line":3,"title":"Null access","description":"d1","reasoning":"r1"},{"severity":"low","category":"best-practice","file":"a.ts","title":"Naming","description":"d2","reasoning":"r2"}],"summary":"ok","overallScore":40}''),
             parts = None \<rparr>)
     []
   = ([], Inr \<lparr> issues =
            [\<lparr> severity = js ''critical'', issue_category = js ''correctness'', issue_file = js ''a.ts'',
               line = Some 3, issue_title = js ''Null access'', description = js ''d1'',
               reasoning = js ''r1'', suggestion = None, ruleId = None \<rparr>,
             \<lparr> severity = js ''low'', issue_category = js ''best-practice'', issue_file = js ''a.ts'',
               line = None, issue_title = js ''Naming'', description = js ''d2'',
               reasoning = js ''r2'', suggestion = None, ruleId = None \<rparr>],
          summary = js ''ok'', overallScore = 40, thinkingTrace = None, filesReviewed = [],
          totalLines = 0 \<rparr>)
   \<and> length (critical (groupBySeverity
            [\<lparr> severity = js ''critical'', issue_category = js ''correctness'', issue_file = js ''a.ts'',
               line = Some 3, issue_title = js ''Null access'', description = js ''d1'',
               reasoning = js ''r1'', suggestion = None, ruleId = None \<rparr>,
             \<lparr> severity = js ''low'', issue_category = js ''best-practice'', issue_file = js ''a.ts'',
               line = None, issue_title = js ''Naming'', description = js ''d2'',
               reasoning = js ''r2'', suggestion = None, ruleId = None \<rparr>]))
     + length (high (groupBySeverity
            [\<lparr> severity = js ''critical'', issue_category = js ''correctness'', issue_file = js ''a.ts'',
               line = Some 3, issue_title = js ''Null access'', description = js ''d1'',
               reasoning = js ''r1'', suggestion = None, ruleId = None \<rparr>,
             \<lparr> severity = js ''low'', issue_category = js ''best-practice'', issue_file = js ''a.ts'',
               line = None, issue_title = js ''Naming'', description = js ''d2'',
               reasoning = js ''r2'', suggestion = None, ruleId = None \<rparr>]))
     + length (medium (groupBySeverity
            [\<lparr> severity = js ''critical'', issue_category = js ''correctness'', issue_file = js ''a.ts'',
               line = Some 3, issue_title = js ''Null access'', description = js ''d1'',
               reasoning = js ''r1'', suggestion = None, ruleId = None \<rparr>,
             \<lparr> severity = js ''low'', issue_category = js ''best-practice'', issue_file = js ''a.ts'',
               line = None, issue_title = js ''Naming'', description = js ''d2'',
               reasoning = js ''r2'', suggestion = None, ruleId = None \<rparr>]))
     + length (low (groupBySeverity
            [\<lparr> severity = js ''critical'', issue_category = js ''correctness'', issue_file = js ''a.ts'',
               line = Some 3, issue_title = js ''Null access'', description = js ''d1'',
               reasoning = js ''r1'', suggestion = None, ruleId = None \<rparr>,
             \<lparr> severity = js ''low'', issue_category = js ''best-practice'', issue_file = js ''a.ts'',
               line = None, issue_title = js ''Naming'', description = js ''d2'',
               reasoning = js ''r2'', suggestion = None, ruleId = None \<rparr>]))
     = 2\<close>
proof -
  let ?j = \<open>(js ''{"issues":[{"severity":"critical","category":"correctness","file":"a.ts","line":3,"title":"Null access","description":"d1","reasoning":"r1"},{"severity":"low","category":"best-practice","file":"a.ts","title":"Naming","description":"d2","reasoning":"r2"}],"summary":"ok","overallScore":40}'')\<close>
  let ?iss = "[\<lparr> severity = js ''critical'', issue_category = js ''correctness'', issue_file = js ''a.ts'',
               line = Some 3, issue_title = js ''Null access'', description = js ''d1'',
               reasoning = js ''r1'', suggestion = None, ruleId = None \<rparr>,
             \<lparr> severity = js ''low'', issue_category = js ''best-practice'', issue_file = js ''a.ts'',
               line = None, issue_title = js ''Naming'', description = js ''d2'',
               reasoning = js ''r2'', suggestion = None, ruleId = None \<rparr>]"
  let ?d = "\<lparr> rd_issues = Some ?iss, rd_summary = Some (js ''ok''), rd_overallScore = Some 40 \<rparr>"
  let ?r = "\<lparr> text_result = Inr ?j, parts = None \<rparr>"
  have h1: "(Inr ?r :: js_exn + response) = Inr ?r" by (rule refl)
  have h2: "text_result ?r = Inr ?j" by simp
  have h3: "[?j \<mapsto> JsonValue ?d] ?j = Some (JsonValue ?d)" by simp
  have h4: "rd_issues ?d = Some ?iss" by simp
  have all_valid: "\<forall>i \<in> set ?iss. severity i \<in> {js ''critical'', js ''high'', js ''medium'', js ''low''}"
    by simp
  from issues_kept_and_grouped [where JSON_parse = "[?j \<mapsto> JsonValue ?d]"
      and payload = "?j" and reviewData = "?d" and iss = "?iss" and files = "[]",
      OF h1 h2 h3 h4]
  obtain result g where run: "reviewCode [?j \<mapsto> JsonValue ?d] (Inr ?r) [] = ([], Inr result)"
    and kept: "issues result = ?iss"
    and g: "g = groupBySeverity (issues result)"
    and valid: "(\<forall>i \<in> set ?iss. severity i \<in> {js ''critical'', js ''high'', js ''medium'', js ''low''}) \<longrightarrow>
          length (critical g) + length (high g) + length (medium g) + length (low g)
            = length ?iss
          \<and> set (critical g) \<union> set (high g) \<union> set (medium g) \<union> set (low g) = set ?iss"
    by (elim exE conjE) (rule that, assumption+)
  from valid all_valid
  have "length (critical g) + length (high g) + length (medium g) + length (low g) = length ?iss"
    by blast
  then have sum: "length (critical (groupBySeverity ?iss)) + length (high (groupBySeverity ?iss))
      + length (medium (groupBySeverity ?iss)) + length (low (groupBySeverity ?iss)) = 2"
    unfolding g kept by simp
  have "reviewCode [?j \<mapsto> JsonValue ?d] (Inr ?r) [] =
      ([], Inr \<lparr> issues = ?iss, summary = js ''ok'', overallScore = 40, thinkingTrace = None,
                  filesReviewed = [], totalLines = 0 \<rparr>)"
    by (simp add: reviewCode_def or_array_def or_string_def or_number_def
        extractThinkingTrace_def)
  with sum show ?thesis by (rule conjI [rotated])
qed

text \<open>The claim as stated fails: a payload whose one issue has the severity \<^verbatim>\<open>info\<close> gives
  a Review Result with one issue, and the four buckets are empty.\<close>

theorem grouping_not_exhaustive_counterexample:
  \<open>reviewCode
     [js ''{"issues":[{"severity":"info","category":"correctness","file":"a.ts","title":"Note","description":"d","reasoning":"r"}],"summary":"ok","overallScore":80}'' \<mapsto>
        JsonValue \<lparr> rd_issues = Some
            [\<lparr> severity = js ''info'', issue_category = js ''correctness'', issue_file = js ''a.ts'',
               line = None, issue_title = js ''Note'', description = js ''d'', reasoning = js ''r'',
               suggestion = None, ruleId = None \<rparr>],
          rd_summary = Some (js ''ok''), rd_overallScore = Some 80 \<rparr>]
     (Inr \<lparr> text_result = Inr (js ''{"issues":[{"severity":"info","category":"correctness","file":"a.ts","title":"Note","description":"d","reasoning":"r"}],"summary":"ok","overallScore":80}''),
             parts = None \<rparr>)
     []
   = ([], Inr \<lparr> issues =
            [\<lparr> severity = js ''info'', issue_category = js ''correctness'', issue_file = js ''a.ts'',
               line = None, issue_title = js ''Note'', description = js ''d'', reasoning = js ''r'',
               suggestion = None, ruleId = None \<rparr>],
          summary = js ''ok'', overallScore = 80, thinkingTrace = None, filesReviewed = [],
          totalLines = 0 \<rparr>)
   \<and> length [\<lparr> severity = js ''info'', issue_category = js ''correctness'', issue_file = js ''a.ts'',
               line = None, issue_title = js ''Note'', description = js ''d'', reasoning = js ''r'',
               suggestion = None, ruleId = None \<rparr>] = 1
   \<and> length (critical (groupBySeverity
            [\<lparr> severity = js ''info'', issue_category = js ''correctness'', issue_file = js ''a.ts'',
               line = None, issue_title = js ''Note'', description = js ''d'', reasoning = js ''r'',
               suggestion = None, ruleId = None \<rparr>]))
     + length (high (groupBySeverity
            [\<lparr> severity = js ''info'', issue_category = js ''correctness'', issue_file = js ''a.ts'',
               line = None, issue_title = js ''Note'', description = js ''d'', reasoning = js ''r'',
               suggestion = None, ruleId = None \<rparr>]))
     + length (medium (groupBySeverity
            [\<lparr> severity = js ''info'', issue_category = js ''correctness'', issue_file = js ''a.ts'',
               line = None, issue_title = js ''Note'', description = js ''d'', reasoning = js ''r'',
               suggestion = None, ruleId = None \<rparr>]))
     + length (low (groupBySeverity
            [\<lparr> severity = js ''info'', issue_category = js ''correctness'', issue_file = js ''a.ts'',
               line = None, issue_title = js ''Note'', description = js ''d'', reasoning = js ''r'',
               suggestion = None, ruleId = None \<rparr>]))
     = 0\<close>
  by (simp add: reviewCode_def or_array_def or_string_def or_number_def
      extractThinkingTrace_def groupBySeverity_def)

section \<open>Exit code\<close>

text \<open>
  C2. For every Review Result the action selects exit code 1, with the failure line, when
  some issue has the severity \<^verbatim>\<open>critical\<close>; exit code 0, with the warning line, when no
  issue is \<^verbatim>\<open>critical\<close> and some issue is \<^verbatim>\<open>high\<close>; and exit code 0, with the plain
  success line, otherwise.
\<close>

theorem exit_code_by_severity:
  "((\<exists>i \<in> set (issues result). severity i = js ''critical'')
      \<longrightarrow> review_exit (Inr result) = (ReviewFailed, 1))
   \<and> (\<not> (\<exists>i \<in> set (issues result). severity i = js ''critical'')
        \<and> (\<exists>i \<in> set (issues result). severity i = js ''high'')
      \<longrightarrow> review_exit (Inr result) = (ReviewPassedWithWarnings, 0))
   \<and> (\<not> (\<exists>i \<in> set (issues result). severity i = js ''critical'')
        \<and> \<not> (\<exists>i \<in> set (issues result). severity i = js ''high'')
      \<longrightarrow> review_exit (Inr result) = (ReviewPassed, 0))
   \<and> review_exit (Inr result) = exit_decision result"
  by (simp add: exit_decision_def review_exit_def list_ex_iff)

text \<open>One \<^verbatim>\<open>critical\<close> issue alone gives 1; a \<^verbatim>\<open>high\<close> and a \<^verbatim>\<open>low\<close> issue give 0 with the
  warning; no issue gives 0.\<close>

theorem exit_code_by_severity_witness:
  "review_exit (Inr
     \<lparr> issues = [\<lparr> severity = js ''critical'', issue_category = js ''correctness'',
                   issue_file = js ''a.ts'', line = Some 3, issue_title = js ''Null access'',
                   description = js ''d1'', reasoning = js ''r1'', suggestion = None,
                   ruleId = None \<rparr>],
       summary = js ''s'', overallScore = 10, thinkingTrace = None, filesReviewed = [js ''a.ts''],
       totalLines = 5 \<rparr>) = (ReviewFailed, 1)
   \<and> review_exit (Inr
     \<lparr> issues = [\<lparr> severity = js ''high'', issue_category = js ''performance'',
                   issue_file = js ''a.ts'', line = None, issue_title = js ''Waterfall'',
                   description = js ''d2'', reasoning = js ''r2'', suggestion = None,
                   ruleId = Some (js ''react-performance-principles'') \<rparr>,
                 \<lparr> severity = js ''low'', issue_category = js ''best-practice'',
                   issue_file = js ''a.ts'', line = None, issue_title = js ''Naming'',
                   description = js ''d3'', reasoning = js ''r3'', suggestion = None,
                   ruleId = None \<rparr>],
       summary = js ''s'', overallScore = 60, thinkingTrace = None, filesReviewed = [js ''a.ts''],
       totalLines = 5 \<rparr>) = (ReviewPassedWithWarnings, 0)
   \<and> review_exit (Inr
     \<lparr> issues = [], summary = js ''s'', overallScore = 100, thinkingTrace = None,
       filesReviewed = [js ''a.ts''], totalLines = 5 \<rparr>) = (ReviewPassed, 0)"
proof -
  let ?c = "\<lparr> severity = js ''critical'', issue_category = js ''correctness'',
                   issue_file = js ''a.ts'', line = Some 3, issue_title = js ''Null access'',
                   description = js ''d1'', reasoning = js ''r1'', suggestion = None,
                   ruleId = None \<rparr>"
  let ?h = "\<lparr> severity = js ''high'', issue_category = js ''performance'',
                   issue_file = js ''a.ts'', line = None, issue_title = js ''Waterfall'',
                   description = js ''d2'', reasoning = js ''r2'', suggestion = None,
                   ruleId = Some (js ''react-performance-principles'') \<rparr>"
  let ?l = "\<lparr> severity = js ''low'', issue_category = js ''best-practice'',
                   issue_file = js ''a.ts'', line = None, issue_title = js ''Naming'',
                   description = js ''d3'', reasoning = js ''r3'', suggestion = None,
                   ruleId = None \<rparr>"
  let ?r1 = "\<lparr> issues = [?c], summary = js ''s'', overallScore = 10, thinkingTrace = None,
       filesReviewed = [js ''a.ts''], totalLines = 5 \<rparr>"
  let ?r2 = "\<lparr> issues = [?h, ?l], summary = js ''s'', overallScore = 60, thinkingTrace = None,
       filesReviewed = [js ''a.ts''], totalLines = 5 \<rparr>"
  let ?r3 = "\<lparr> issues = [], summary = js ''s'', overallScore = 100, thinkingTrace = None,
       filesReviewed = [js ''a.ts''], totalLines = 5 \<rparr>"
  have c1: "\<exists>i \<in> set (issues ?r1). severity i = js ''critical''" by simp
  have c2: "\<not> (\<exists>i \<in> set (issues ?r2). severity i = js ''critical'')
      \<and> (\<exists>i \<in> set (issues ?r2). severity i = js ''high'')" by simp
  have c3: "\<not> (\<exists>i \<in> set (issues ?r3). severity i = js ''critical'')
      \<and> \<not> (\<exists>i \<in> set (issues ?r3). severity i = js ''high'')" by simp
  from c1 exit_code_by_severity [of ?r1]
  have e1: "review_exit (Inr ?r1) = (ReviewFailed, 1)" by blast
  from c2 exit_code_by_severity [of ?r2]
  have e2: "review_exit (Inr ?r2) = (ReviewPassedWithWarnings, 0)" by blast
  from c3 exit_code_by_severity [of ?r3]
  have e3: "review_exit (Inr ?r3) = (ReviewPassed, 0)" by blast
  from e1 e2 e3 show ?thesis by (intro conjI)
qed

end
